theory Spec2Isabelle
  imports Complex_Main
begin

section \<open>Python values used by the program\<close>

text \<open>
  Strings are Python \<^verbatim>\<open>str\<close> restricted to ASCII: a \<^typ>\<open>string\<close> is a list of
  bytes. The string methods below are the ones the source calls.
\<close>

definition startswith :: "string \<Rightarrow> string \<Rightarrow> bool" where
  "startswith s p = (take (length p) s = p)"

definition endswith :: "string \<Rightarrow> string \<Rightarrow> bool" where
  "endswith s p = (length p \<le> length s \<and> drop (length s - length p) s = p)"

definition lower_char :: "char \<Rightarrow> char" where
  "lower_char c = (if 65 \<le> (of_char c :: nat) \<and> (of_char c :: nat) \<le> 90
                   then char_of ((of_char c :: nat) + 32) else c)"

definition lower :: "string \<Rightarrow> string" where
  "lower s = map lower_char s"

definition is_space :: "char \<Rightarrow> bool" where
  "is_space c = ((of_char c :: nat) \<in> set [9, 10, 11, 12, 13, 28, 29, 30, 31, 32])"

definition strip :: "string \<Rightarrow> string" where
  "strip s = rev (dropWhile is_space (rev (dropWhile is_space s)))"

definition nl :: string where
  "nl = [CHR 0x0A]"

subsection \<open>Formatting integers\<close>

definition digit_char :: "nat \<Rightarrow> char" where
  "digit_char d = ''0123456789'' ! d"

function digits10 :: "nat \<Rightarrow> string" where
  "digits10 n = (if n < 10 then [digit_char n]
                 else digits10 (n div 10) @ [digit_char (n mod 10)])"
  by pat_completeness auto
termination
  by (relation "measure (\<lambda>n. n)") auto

declare digits10.simps [simp del]

text \<open>\<^verbatim>\<open>str(n)\<close> and the format specifier \<^verbatim>\<open>{n:0wd}\<close>: zero padding up to width
  \<open>w\<close>, the sign counted in the width, wider numbers printed in full.\<close>

definition str_int :: "int \<Rightarrow> string" where
  "str_int n = (if n < 0 then CHR ''-'' # digits10 (nat (- n)) else digits10 (nat n))"

definition zfill :: "nat \<Rightarrow> string \<Rightarrow> string" where
  "zfill w s = replicate (w - length s) CHR ''0'' @ s"

definition fmt_0d :: "nat \<Rightarrow> int \<Rightarrow> string" where
  "fmt_0d w n = (if n < 0 then CHR ''-'' # zfill (w - 1) (digits10 (nat (- n)))
                 else zfill w (digits10 (nat n)))"

section \<open>core/transcription.py: subtitle writers\<close>

text \<open>
  Segment times are Python floats. They are modelled as rationals with exact arithmetic:
  \<^verbatim>\<open>x // y\<close> is the floor of the quotient, \<^verbatim>\<open>x % y\<close> the matching remainder and
  \<^verbatim>\<open>int(x)\<close> truncates towards zero. On times that are small multiples of a power of
  two, such as 0.0, 1.5 and 3.0, every intermediate value is representable and
  the IEEE-754 operations return these exact results.
\<close>

definition py_floordiv :: "rat \<Rightarrow> rat \<Rightarrow> rat" where
  "py_floordiv x y = of_int \<lfloor>x / y\<rfloor>"

definition py_mod :: "rat \<Rightarrow> rat \<Rightarrow> rat" where
  "py_mod x y = x - y * of_int \<lfloor>x / y\<rfloor>"

definition py_int :: "rat \<Rightarrow> int" where
  "py_int x = (if 0 \<le> x then \<lfloor>x\<rfloor> else \<lceil>x\<rceil>)"

record segment =
  seg_start :: rat
  seg_end :: rat
  seg_text :: string

definition format_timestamp_srt :: "rat \<Rightarrow> string" where
  "format_timestamp_srt seconds =
     (let hours = py_int (py_floordiv seconds 3600);
          minutes = py_int (py_floordiv (py_mod seconds 3600) 60);
          secs = py_int (py_mod seconds 60);
          millis = py_int (py_mod seconds 1 * 1000)
      in fmt_0d 2 hours @ '':'' @ fmt_0d 2 minutes @ '':'' @ fmt_0d 2 secs @ '',''
           @ fmt_0d 3 millis)"

definition format_timestamp_vtt :: "rat \<Rightarrow> string" where
  "format_timestamp_vtt seconds =
     (let hours = py_int (py_floordiv seconds 3600);
          minutes = py_int (py_floordiv (py_mod seconds 3600) 60);
          secs = py_int (py_mod seconds 60);
          millis = py_int (py_mod seconds 1 * 1000)
      in fmt_0d 2 hours @ '':'' @ fmt_0d 2 minutes @ '':'' @ fmt_0d 2 secs @ ''.''
           @ fmt_0d 3 millis)"

text \<open>The writers return the text written to the (freshly truncated) output file.
  \<open>srt_blocks i\<close> is the loop over \<^verbatim>\<open>enumerate(segments, i)\<close>.\<close>

fun srt_blocks :: "int \<Rightarrow> segment list \<Rightarrow> string" where
  "srt_blocks i [] = []"
| "srt_blocks i (s # ss) =
     (str_int i @ nl)
     @ (format_timestamp_srt (seg_start s) @ '' --> '' @ format_timestamp_srt (seg_end s) @ nl)
     @ (strip (seg_text s) @ nl @ nl)
     @ srt_blocks (i + 1) ss"

definition write_srt :: "segment list \<Rightarrow> string" where
  "write_srt segments = srt_blocks 1 segments"

fun write_txt :: "segment list \<Rightarrow> string" where
  "write_txt [] = []"
| "write_txt (s # ss) = (strip (seg_text s) @ nl) @ write_txt ss"

fun vtt_blocks :: "segment list \<Rightarrow> string" where
  "vtt_blocks [] = []"
| "vtt_blocks (s # ss) =
     (format_timestamp_vtt (seg_start s) @ '' --> '' @ format_timestamp_vtt (seg_end s) @ nl)
     @ (strip (seg_text s) @ nl @ nl)
     @ vtt_blocks ss"

definition write_vtt :: "segment list \<Rightarrow> string" where
  "write_vtt segments = (''WEBVTT'' @ nl @ nl) @ vtt_blocks segments"

section \<open>Dictionaries\<close>

text \<open>
  A Python \<^verbatim>\<open>dict\<close> keeps its keys in insertion order, and the download loop walks the
  state dictionaries in that order, so a dictionary is an association list with
  distinct keys. \<^verbatim>\<open>d[k] = v\<close> replaces the value of a present key in place and appends
  an absent one.
\<close>

type_synonym ('k, 'v) dict = "('k \<times> 'v) list"

fun dict_get :: "('k, 'v) dict \<Rightarrow> 'k \<Rightarrow> 'v option" where
  "dict_get [] k = None"
| "dict_get ((k', v) # d) k = (if k' = k then Some v else dict_get d k)"

definition dict_contains :: "('k, 'v) dict \<Rightarrow> 'k \<Rightarrow> bool" where
  "dict_contains d k = (dict_get d k \<noteq> None)"

fun dict_set :: "('k, 'v) dict \<Rightarrow> 'k \<Rightarrow> 'v \<Rightarrow> ('k, 'v) dict" where
  "dict_set [] k v = [(k, v)]"
| "dict_set ((k', v') # d) k v =
     (if k' = k then (k, v) # d else (k', v') # dict_set d k v)"

definition dict_values :: "('k, 'v) dict \<Rightarrow> 'v list" where
  "dict_values d = map snd d"

section \<open>utils/config.py: the data model\<close>

text \<open>
  \<^verbatim>\<open>FileState\<close>. The fields \<^verbatim>\<open>id\<close> and \<^verbatim>\<open>size\<close> are named \<open>file_id\<close> and
  \<open>size_bytes\<close> here; statuses are the strings the source stores.
\<close>

record FileState =
  file_id :: string
  name :: string
  source :: string
  mime_type :: string
  size_bytes :: int
  status :: string
  downloaded_at :: "string option"
  local_path :: "string option"
  error_message :: "string option"
  modified_time :: "string option"
  transcription_status :: string
  transcribed_at :: "string option"

text \<open>The constructor call \<^verbatim>\<open>FileState(id=, name=, source=, mime_type=, size=, status=)\<close>
  of the two listing loops: every other field takes its default.\<close>

definition new_FileState ::
  "string \<Rightarrow> string \<Rightarrow> string \<Rightarrow> string \<Rightarrow> int \<Rightarrow> string \<Rightarrow> FileState" where
  "new_FileState i n src mime sz st =
     \<lparr>file_id = i, name = n, source = src, mime_type = mime, size_bytes = sz, status = st,
      downloaded_at = None, local_path = None, error_message = None, modified_time = None,
      transcription_status = ''pending'', transcribed_at = None\<rparr>"

definition is_video :: "FileState \<Rightarrow> bool" where
  "is_video f =
     (mime_type f \<in> set [''video/mp4'', ''video/quicktime'', ''video/x-msvideo'',
                          ''video/webm'', ''video/3gpp'', ''video/mpeg'', ''video/x-matroska'']
      \<or> startswith (mime_type f) ''video/'')"

text \<open>\<^verbatim>\<open>TranscriptionState\<close>, keyed by the local path of the video. Its fields
  \<^verbatim>\<open>status\<close>, \<^verbatim>\<open>transcribed_at\<close> and \<^verbatim>\<open>error_message\<close> carry the prefix \<open>t_\<close>.\<close>

record TranscriptionState =
  video_path :: string
  t_status :: string
  transcript_path :: "string option"
  t_transcribed_at :: "string option"
  t_error_message :: "string option"

record DownloadStats =
  total :: int
  downloaded :: int
  pending :: int
  errors :: int
  videos_for_transcription :: int

definition DownloadStats0 :: DownloadStats where
  "DownloadStats0 = \<lparr>total = 0, downloaded = 0, pending = 0, errors = 0,
                      videos_for_transcription = 0\<rparr>"

text \<open>Truthiness of an optional string: \<^verbatim>\<open>None\<close> and the empty string are false.\<close>

definition truthy_str :: "string option \<Rightarrow> bool" where
  "truthy_str p = (case p of None \<Rightarrow> False | Some s \<Rightarrow> s \<noteq> [])"

subsection \<open>\<^verbatim>\<open>ConfigManager.get_download_stats\<close>\<close>

text \<open>One iteration of the loop over the records of both sources.\<close>

definition stats_step ::
  "(string, TranscriptionState) dict \<Rightarrow> DownloadStats \<Rightarrow> FileState \<Rightarrow> DownloadStats" where
  "stats_step tstates stats state =
     (let stats = stats\<lparr>total := total stats + 1\<rparr> in
      if status state = ''complete'' then
        (let stats = stats\<lparr>downloaded := downloaded stats + 1\<rparr> in
         if is_video state then
           (if transcription_status state = ''pending'' \<or> transcription_status state = ''n/a''
            then
              (if truthy_str (local_path state) then
                 (case dict_get tstates (the (local_path state)) of
                    None \<Rightarrow> stats\<lparr>videos_for_transcription := videos_for_transcription stats + 1\<rparr>
                  | Some trans_state \<Rightarrow>
                      if t_status trans_state = ''pending''
                      then stats\<lparr>videos_for_transcription := videos_for_transcription stats + 1\<rparr>
                      else stats)
               else stats\<lparr>videos_for_transcription := videos_for_transcription stats + 1\<rparr>)
            else stats)
         else stats)
      else if status state = ''pending'' then stats\<lparr>pending := pending stats + 1\<rparr>
      else if status state = ''error'' then stats\<lparr>errors := errors stats + 1\<rparr>
      else stats)"

definition get_download_stats ::
  "(string, FileState) dict \<Rightarrow> (string, FileState) dict \<Rightarrow>
   (string, TranscriptionState) dict \<Rightarrow> DownloadStats" where
  "get_download_stats drive_state photos_state tstates =
     foldl (stats_step tstates) DownloadStats0 (dict_values drive_state @ dict_values photos_state)"

text \<open>The condition under which the loop body adds one to
  \<^verbatim>\<open>videos_for_transcription\<close>, read off the nested tests of the source.\<close>

definition counted_for_transcription ::
  "(string, TranscriptionState) dict \<Rightarrow> FileState \<Rightarrow> bool" where
  "counted_for_transcription tstates state =
     (status state = ''complete'' \<and> is_video state
      \<and> (transcription_status state = ''pending'' \<or> transcription_status state = ''n/a'')
      \<and> (if truthy_str (local_path state)
          then (case dict_get tstates (the (local_path state)) of
                  None \<Rightarrow> True | Some trans_state \<Rightarrow> t_status trans_state = ''pending'')
          else True))"

text \<open>The rule in the words of the specification: a completed video, with no
  transcription record for its local path whose status is other than pending.\<close>

definition awaiting_transcription_spec ::
  "(string, TranscriptionState) dict \<Rightarrow> FileState \<Rightarrow> bool" where
  "awaiting_transcription_spec tstates state =
     (status state = ''complete'' \<and> is_video state
      \<and> (case local_path state of
            None \<Rightarrow> True
          | Some p \<Rightarrow> (case dict_get tstates p of
                        None \<Rightarrow> True | Some trans_state \<Rightarrow> t_status trans_state = ''pending'')))"

subsection \<open>\<^verbatim>\<open>AppConfig\<close> and the configuration document\<close>

text \<open>
  A dataclass does not check the types of its fields, and \<^verbatim>\<open>_load_config\<close> passes the
  values of the JSON document to the constructor as they are. The fields of \<^verbatim>\<open>AppConfig\<close>
  therefore hold JSON values; \<^verbatim>\<open>json.dump\<close> and \<^verbatim>\<open>json.load\<close> are the identity on them.
\<close>

datatype pyval =
  PNone | PBool bool | PInt int | PStr string | PList "pyval list"
  | PDict "(string \<times> pyval) list"

fun truthy :: "pyval \<Rightarrow> bool" where
  "truthy PNone = False"
| "truthy (PBool b) = b"
| "truthy (PInt i) = (i \<noteq> 0)"
| "truthy (PStr s) = (s \<noteq> [])"
| "truthy (PList vs) = (vs \<noteq> [])"
| "truthy (PDict kvs) = (kvs \<noteq> [])"

datatype exn = RuntimeError | TypeError | ValueError | OSError | HttpError | OtherException

record AppConfig =
  download_path :: pyval
  auto_download :: pyval
  auto_transcribe :: pyval
  transcription_model :: pyval
  transcription_output_format :: pyval
  transcription_language :: pyval
  download_videos :: pyval
  download_documents :: pyval
  download_photos :: pyval
  max_concurrent_downloads :: pyval
  exclude_patterns :: pyval

definition field_names :: "string list" where
  "field_names =
     [''download_path'', ''auto_download'', ''auto_transcribe'', ''transcription_model'',
      ''transcription_output_format'', ''transcription_language'', ''download_videos'',
      ''download_documents'', ''download_photos'', ''max_concurrent_downloads'',
      ''exclude_patterns'']"

text \<open>\<^verbatim>\<open>dataclasses.asdict\<close>: one entry per field, in declaration order.\<close>

definition asdict :: "AppConfig \<Rightarrow> (string, pyval) dict" where
  "asdict c =
     [(''download_path'', download_path c), (''auto_download'', auto_download c),
      (''auto_transcribe'', auto_transcribe c), (''transcription_model'', transcription_model c),
      (''transcription_output_format'', transcription_output_format c),
      (''transcription_language'', transcription_language c),
      (''download_videos'', download_videos c), (''download_documents'', download_documents c),
      (''download_photos'', download_photos c),
      (''max_concurrent_downloads'', max_concurrent_downloads c),
      (''exclude_patterns'', exclude_patterns c)]"

definition kwarg :: "(string, pyval) dict \<Rightarrow> string \<Rightarrow> pyval \<Rightarrow> pyval" where
  "kwarg kwargs k dflt = (case dict_get kwargs k of None \<Rightarrow> dflt | Some v \<Rightarrow> v)"

text \<open>\<^verbatim>\<open>__post_init__\<close>; \<open>default_dir\<close> is \<^verbatim>\<open>str(Paths.get_default_download_dir())\<close>, which
  depends on the user's home directory.\<close>

definition post_init :: "string \<Rightarrow> AppConfig \<Rightarrow> AppConfig" where
  "post_init default_dir c =
     (if \<not> truthy (download_path c) then c\<lparr>download_path := PStr default_dir\<rparr> else c)"

text \<open>The generated \<^verbatim>\<open>__init__\<close>, called with keyword arguments only: a keyword that is
  not a field raises \<^verbatim>\<open>TypeError\<close>, an absent field takes its default.\<close>

definition AppConfig_init :: "string \<Rightarrow> (string, pyval) dict \<Rightarrow> exn + AppConfig" where
  "AppConfig_init default_dir kwargs =
     (if list_all (\<lambda>kv. fst kv \<in> set field_names) kwargs then
        Inr (post_init default_dir
          \<lparr>download_path = kwarg kwargs ''download_path'' (PStr []),
           auto_download = kwarg kwargs ''auto_download'' (PBool False),
           auto_transcribe = kwarg kwargs ''auto_transcribe'' (PBool True),
           transcription_model = kwarg kwargs ''transcription_model'' (PStr ''small''),
           transcription_output_format = kwarg kwargs ''transcription_output_format'' (PStr ''txt''),
           transcription_language = kwarg kwargs ''transcription_language'' (PStr ''en''),
           download_videos = kwarg kwargs ''download_videos'' (PBool True),
           download_documents = kwarg kwargs ''download_documents'' (PBool True),
           download_photos = kwarg kwargs ''download_photos'' (PBool True),
           max_concurrent_downloads = kwarg kwargs ''max_concurrent_downloads'' (PInt 3),
           exclude_patterns =
             kwarg kwargs ''exclude_patterns'' (PList [PStr ''*.tmp'', PStr ''*.part''])\<rparr>)
      else Inl TypeError)"

text \<open>\<^verbatim>\<open>AppConfig()\<close>: the constructor called without arguments.\<close>

definition AppConfig_default :: "string \<Rightarrow> AppConfig" where
  "AppConfig_default default_dir =
     post_init default_dir
       \<lparr>download_path = PStr [], auto_download = PBool False, auto_transcribe = PBool True,
        transcription_model = PStr ''small'', transcription_output_format = PStr ''txt'',
        transcription_language = PStr ''en'', download_videos = PBool True,
        download_documents = PBool True, download_photos = PBool True,
        max_concurrent_downloads = PInt 3,
        exclude_patterns = PList [PStr ''*.tmp'', PStr ''*.part'']\<rparr>"

text \<open>
  \<^verbatim>\<open>hasattr(AppConfig, k)\<close> asks for an attribute of the class. A dataclass field with a
  plain default leaves that default behind as a class attribute; a field declared with
  \<^verbatim>\<open>field(default_factory=...)\<close>, here \<^verbatim>\<open>exclude_patterns\<close>, leaves none. The remaining
  attributes of the class (generated and inherited methods such as \<^verbatim>\<open>__init__\<close>) depend
  on the interpreter and are the parameter \<open>other_attrs\<close>.
\<close>

definition class_level_defaults :: "string list" where
  "class_level_defaults =
     [''download_path'', ''auto_download'', ''auto_transcribe'', ''transcription_model'',
      ''transcription_output_format'', ''transcription_language'', ''download_videos'',
      ''download_documents'', ''download_photos'', ''max_concurrent_downloads'']"

definition hasattr_AppConfig :: "(string \<Rightarrow> bool) \<Rightarrow> string \<Rightarrow> bool" where
  "hasattr_AppConfig other_attrs k = (k \<in> set class_level_defaults \<or> other_attrs k)"

text \<open>The configuration file: absent, present but not parseable as JSON, or a JSON value.\<close>

datatype json_file = Absent | Unreadable | Doc pyval

text \<open>\<^verbatim>\<open>_load_config\<close>. Every exception inside the \<^verbatim>\<open>try\<close> block (a document that is not
  an object has no \<^verbatim>\<open>items\<close>; the constructor may raise) ends in the defaults.\<close>

definition load_config :: "string \<Rightarrow> (string \<Rightarrow> bool) \<Rightarrow> json_file \<Rightarrow> AppConfig" where
  "load_config default_dir other_attrs file =
     (case file of
        Absent \<Rightarrow> AppConfig_default default_dir
      | Unreadable \<Rightarrow> AppConfig_default default_dir
      | Doc (PDict data) \<Rightarrow>
          (case AppConfig_init default_dir
                  (filter (\<lambda>kv. hasattr_AppConfig other_attrs (fst kv)) data) of
             Inr c \<Rightarrow> c
           | Inl e \<Rightarrow> AppConfig_default default_dir)
      | Doc _ \<Rightarrow> AppConfig_default default_dir)"

subsection \<open>\<^verbatim>\<open>ConfigManager\<close>\<close>

text \<open>
  The manager's attributes together with the files it reads and writes. A state file is
  \<open>None\<close> when it is absent or unreadable, which \<^verbatim>\<open>_load_state\<close> turns into the empty
  dictionary. Writing a file is taken to succeed (the source logs a failure and goes on).
\<close>

record ConfigManager =
  cm_config :: "AppConfig option"
  drive_state :: "(string, FileState) dict"
  photos_state :: "(string, FileState) dict"
  transcription_state :: "(string, TranscriptionState) dict"
  config_file :: json_file
  drive_state_file :: "(string, FileState) dict option"
  photos_state_file :: "(string, FileState) dict option"
  transcription_state_file :: "(string, TranscriptionState) dict option"

definition load_state :: "('k, 'v) dict option \<Rightarrow> ('k, 'v) dict" where
  "load_state f = (case f of None \<Rightarrow> [] | Some d \<Rightarrow> d)"

definition get_config ::
  "string \<Rightarrow> (string \<Rightarrow> bool) \<Rightarrow> ConfigManager \<Rightarrow> AppConfig \<times> ConfigManager" where
  "get_config default_dir other_attrs cm =
     (case cm_config cm of
        None \<Rightarrow> (let c = load_config default_dir other_attrs (config_file cm)
                 in (c, cm\<lparr>cm_config := Some c\<rparr>))
      | Some c \<Rightarrow> (c, cm))"

definition save_config :: "AppConfig option \<Rightarrow> ConfigManager \<Rightarrow> ConfigManager" where
  "save_config config cm =
     (let cm = (case config of None \<Rightarrow> cm | Some c \<Rightarrow> cm\<lparr>cm_config := Some c\<rparr>) in
      case cm_config cm of
        None \<Rightarrow> cm
      | Some c \<Rightarrow> cm\<lparr>config_file := Doc (PDict (asdict c))\<rparr>)"

definition get_drive_state :: "ConfigManager \<Rightarrow> ConfigManager" where
  "get_drive_state cm =
     (if drive_state cm = [] then cm\<lparr>drive_state := load_state (drive_state_file cm)\<rparr> else cm)"

definition get_photos_state :: "ConfigManager \<Rightarrow> ConfigManager" where
  "get_photos_state cm =
     (if photos_state cm = [] then cm\<lparr>photos_state := load_state (photos_state_file cm)\<rparr>
      else cm)"

definition save_drive_state :: "ConfigManager \<Rightarrow> ConfigManager" where
  "save_drive_state cm = cm\<lparr>drive_state_file := Some (drive_state cm)\<rparr>"

definition save_photos_state :: "ConfigManager \<Rightarrow> ConfigManager" where
  "save_photos_state cm = cm\<lparr>photos_state_file := Some (photos_state cm)\<rparr>"

definition update_drive_file :: "FileState \<Rightarrow> ConfigManager \<Rightarrow> ConfigManager" where
  "update_drive_file file_state cm =
     save_drive_state (cm\<lparr>drive_state := dict_set (drive_state cm) (file_id file_state) file_state\<rparr>)"

definition update_photos_file :: "FileState \<Rightarrow> ConfigManager \<Rightarrow> ConfigManager" where
  "update_photos_file file_state cm =
     save_photos_state
       (cm\<lparr>photos_state := dict_set (photos_state cm) (file_id file_state) file_state\<rparr>)"

definition cm_download_stats :: "ConfigManager \<Rightarrow> DownloadStats" where
  "cm_download_stats cm =
     get_download_stats (drive_state cm) (photos_state cm) (transcription_state cm)"

section \<open>core/download_manager.py: scanning and starting\<close>

text \<open>
  A listing either returns the records it found or raises; \<open>Inl msg\<close> is the raised
  exception with its message. The Drive listing receives the two include flags.
\<close>

type_synonym listing = "string + FileState list"

record scan_collected =
  drive_files :: "FileState list"
  photos_files :: "FileState list"
  scan_errors :: "string list"
  submitted :: "string list"

text \<open>
  The \<^verbatim>\<open>with ThreadPoolExecutor\<close> block of \<^verbatim>\<open>scan_sources\<close>. \<open>submitted\<close> lists the
  sources whose listing was handed to the executor; a listing that was not submitted is
  never called. The two results arrive in either order; they are written to different
  variables, and the order only shows in the local list \<^verbatim>\<open>errors\<close>.
\<close>

definition scan_collect ::
  "AppConfig \<Rightarrow> (pyval \<Rightarrow> pyval \<Rightarrow> listing) \<Rightarrow> listing \<Rightarrow> scan_collected" where
  "scan_collect config list_drive list_photos =
     (let scan_drive = (truthy (download_videos config) \<or> truthy (download_documents config));
          scan_photos = (truthy (download_photos config) \<and> truthy (download_videos config));
          drive_result =
            (if scan_drive
             then (case list_drive (download_videos config) (download_documents config) of
                     Inr files \<Rightarrow> (files, [])
                   | Inl e \<Rightarrow> ([], [''drive: '' @ e]))
             else ([], []));
          photos_result =
            (if scan_photos
             then (case list_photos of
                     Inr files \<Rightarrow> (files, [])
                   | Inl e \<Rightarrow> ([], [''photos: '' @ e]))
             else ([], []))
      in \<lparr>drive_files = fst drive_result, photos_files = fst photos_result,
          scan_errors = snd drive_result @ snd photos_result,
          submitted = (if scan_drive then [''drive''] else [])
                      @ (if scan_photos then [''photos''] else [])\<rparr>)"

text \<open>The two merge loops: a new id is stored as scanned; for a known id the scanned
  record takes over \<^verbatim>\<open>status\<close>, \<^verbatim>\<open>downloaded_at\<close> and \<^verbatim>\<open>local_path\<close> of the stored one and
  replaces it.\<close>

definition merge_file :: "(string, FileState) dict \<Rightarrow> FileState \<Rightarrow> (string, FileState) dict" where
  "merge_file state file =
     (case dict_get state (file_id file) of
        None \<Rightarrow> dict_set state (file_id file) file
      | Some existing \<Rightarrow>
          dict_set state (file_id file)
            (file\<lparr>status := status existing, downloaded_at := downloaded_at existing,
                  local_path := local_path existing\<rparr>))"

definition merge_files ::
  "(string, FileState) dict \<Rightarrow> FileState list \<Rightarrow> (string, FileState) dict" where
  "merge_files state files = foldl merge_file state files"

text \<open>\<^verbatim>\<open>scan_sources\<close>. \<open>is_authenticated\<close> is the property of the process-wide
  authentication manager. The result is the returned statistics and the manager's new
  state; the list \<open>scan_errors\<close> is not used after the executor block.\<close>

definition scan_sources ::
  "bool \<Rightarrow> string \<Rightarrow> (string \<Rightarrow> bool) \<Rightarrow> (pyval \<Rightarrow> pyval \<Rightarrow> listing) \<Rightarrow> listing
   \<Rightarrow> ConfigManager \<Rightarrow> exn + (DownloadStats \<times> ConfigManager)" where
  "scan_sources is_authenticated default_dir other_attrs list_drive list_photos cm =
     (if \<not> is_authenticated then Inl RuntimeError
      else
        (let (config, cm) = get_config default_dir other_attrs cm;
             found = scan_collect config list_drive list_photos;
             cm = get_drive_state cm;
             cm = get_photos_state cm;
             cm = cm\<lparr>drive_state := merge_files (drive_state cm) (drive_files found)\<rparr>;
             cm = cm\<lparr>photos_state := merge_files (photos_state cm) (photos_files found)\<rparr>;
             cm = save_drive_state cm;
             cm = save_photos_state cm
         in Inr (cm_download_stats cm, cm)))"

text \<open>\<^verbatim>\<open>DownloadManager\<close>: its flags, and the number of worker threads started so far.\<close>

record DownloadManager =
  is_downloading :: bool
  is_paused :: bool
  should_stop :: bool
  current_file :: "string option"
  threads_started :: nat

text \<open>\<^verbatim>\<open>start_download\<close> is given the authentication state like \<^verbatim>\<open>scan_sources\<close>; the
  source never reads it.\<close>

definition start_download :: "bool \<Rightarrow> DownloadManager \<Rightarrow> exn + DownloadManager" where
  "start_download is_authenticated dm =
     (if is_downloading dm then Inr dm
      else Inr (dm\<lparr>is_downloading := True, is_paused := False, should_stop := False,
                   threads_started := threads_started dm + 1\<rparr>))"

section \<open>Paths and the file system\<close>

text \<open>
  A \<^verbatim>\<open>pathlib.Path\<close> is the list of its components, a drive or root being the first
  one. \<open>pjoin\<close> is the operator \<^verbatim>\<open>/\<close> with a relative right operand, which is split at
  the separators of the Windows flavour; empty components and \<^verbatim>\<open>.\<close> are dropped.
\<close>

type_synonym path = "string list"

definition backslash :: char where
  "backslash = CHR 0x5C"

definition is_sep :: "char \<Rightarrow> bool" where
  "is_sep c = (c = CHR ''/'' \<or> c = backslash)"

fun split_on :: "(char \<Rightarrow> bool) \<Rightarrow> string \<Rightarrow> string list" where
  "split_on P [] = [[]]"
| "split_on P (c # cs) =
     (if P c then [] # split_on P cs
      else (case split_on P cs of [] \<Rightarrow> [[c]] | w # ws \<Rightarrow> (c # w) # ws))"

definition parts_of :: "string \<Rightarrow> path" where
  "parts_of s = filter (\<lambda>w. w \<noteq> [] \<and> w \<noteq> ''.'') (split_on is_sep s)"

definition pjoin :: "path \<Rightarrow> string \<Rightarrow> path" where
  "pjoin p s = p @ parts_of s"

fun str_path :: "path \<Rightarrow> string" where
  "str_path [] = ''.''"
| "str_path [x] = x"
| "str_path (x # y # zs) = x @ [backslash] @ str_path (y # zs)"

definition path_name :: "path \<Rightarrow> string" where
  "path_name p = (if p = [] then [] else last p)"

definition parent :: "path \<Rightarrow> path" where
  "parent p = butlast p"

text \<open>\<^verbatim>\<open>str.rfind\<close> for a single character, and the properties \<^verbatim>\<open>suffix\<close> and
  \<^verbatim>\<open>with_suffix\<close> of a path; the latter raises \<^verbatim>\<open>ValueError\<close> on an empty name.\<close>

definition rfind :: "string \<Rightarrow> char \<Rightarrow> int" where
  "rfind s c =
     (if c \<in> set s then int (length s) - 1 - int (length (takeWhile (\<lambda>x. x \<noteq> c) (rev s)))
      else - 1)"

definition name_suffix :: "string \<Rightarrow> string" where
  "name_suffix n =
     (let i = rfind n CHR ''.''
      in if 0 < i \<and> i < int (length n) - 1 then drop (nat i) n else [])"

definition with_suffix :: "path \<Rightarrow> string \<Rightarrow> exn + path" where
  "with_suffix p sfx =
     (let n = path_name p in
      if n = [] then Inl ValueError
      else
        (let old_suffix = name_suffix n;
             n' = (if old_suffix = [] then n @ sfx
                   else take (length n - length old_suffix) n @ sfx)
         in Inr (butlast p @ [n'])))"

text \<open>
  The file system holds regular files, with their size in bytes, and directories.
  Writing to an opened file is taken to succeed. Removing a regular file can fail, as it
  does on Windows while another process holds the file open: \<open>removable p\<close> says whether
  the operating system lets the removal of the file at \<open>p\<close> go through.
\<close>

datatype node = File nat | Dir

type_synonym fsys = "path \<Rightarrow> node option"

definition path_exists :: "fsys \<Rightarrow> path \<Rightarrow> bool" where
  "path_exists fs p = (fs p \<noteq> None)"

definition is_file :: "fsys \<Rightarrow> path \<Rightarrow> bool" where
  "is_file fs p = (case fs p of Some (File n) \<Rightarrow> True | _ \<Rightarrow> False)"

text \<open>\<^verbatim>\<open>mkdir(parents=True, exist_ok=True)\<close>: fails, changing nothing, when the path or
  one of its ancestors is a regular file; otherwise every missing ancestor and the path
  become directories.\<close>

definition ancestors_and_self :: "path \<Rightarrow> path list" where
  "ancestors_and_self p = map (\<lambda>k. take k p) [1 ..< Suc (length p)]"

definition mkdir_p :: "fsys \<Rightarrow> path \<Rightarrow> exn + fsys" where
  "mkdir_p fs p =
     (if list_ex (is_file fs) (ancestors_and_self p) then Inl OSError
      else Inr (foldl (\<lambda>f q. f(q \<mapsto> Dir)) fs (ancestors_and_self p)))"

definition unlink :: "(path \<Rightarrow> bool) \<Rightarrow> fsys \<Rightarrow> path \<Rightarrow> exn + fsys" where
  "unlink removable fs p =
     (case fs p of
        Some (File n) \<Rightarrow> (if removable p then Inr (fs(p := None)) else Inl OSError)
      | _ \<Rightarrow> Inl OSError)"

section \<open>core/drive_client.py\<close>

definition GOOGLE_DOCS_EXPORT :: "(string, string \<times> string) dict" where
  "GOOGLE_DOCS_EXPORT =
     [(''application/vnd.google-apps.document'', (''application/pdf'', ''.pdf'')),
      (''application/vnd.google-apps.spreadsheet'',
         (''application/vnd.openxmlformats-officedocument.spreadsheetml.sheet'', ''.xlsx'')),
      (''application/vnd.google-apps.presentation'',
         (''application/vnd.openxmlformats-officedocument.presentationml.presentation'',
          ''.pptx''))]"

text \<open>
  What the remote service does with one media request. \<open>RequestError\<close>: building the
  request raises, before anything is opened. Otherwise \<^verbatim>\<open>next_chunk\<close> is called until
  done; \<open>Chunks n\<close> ends normally with \<open>n\<close> bytes written, \<open>HttpFailure n\<close> and
  \<open>OtherFailure n\<close> raise an \<^verbatim>\<open>HttpError\<close> or another exception after \<open>n\<close> bytes.
  \<open>remote fid export_mime\<close> is the behaviour for \<^verbatim>\<open>get_media\<close> (\<open>None\<close>) and for
  \<^verbatim>\<open>export_media\<close> with the given type.
\<close>

datatype fetch = RequestError | Chunks nat | HttpFailure nat | OtherFailure nat

type_synonym remote = "string \<Rightarrow> string option \<Rightarrow> fetch"

text \<open>The statements from building the request to the end of the \<^verbatim>\<open>with open\<close> block.
  Opening fails on a directory (the empty path is the current directory).\<close>

definition fetch_to :: "fetch \<Rightarrow> fsys \<Rightarrow> path \<Rightarrow> (exn + unit) \<times> fsys" where
  "fetch_to outcome fs destination =
     (case outcome of
        RequestError \<Rightarrow> (Inl OtherException, fs)
      | _ \<Rightarrow>
        (case mkdir_p fs (parent destination) of
           Inl e \<Rightarrow> (Inl e, fs)
         | Inr fs \<Rightarrow>
           (if fs destination = Some Dir \<or> destination = [] then (Inl OSError, fs)
            else
              (case outcome of
                 Chunks n \<Rightarrow> (Inr (), fs(destination \<mapsto> File n))
               | HttpFailure n \<Rightarrow> (Inl HttpError, fs(destination \<mapsto> File n))
               | OtherFailure n \<Rightarrow> (Inl OtherException, fs(destination \<mapsto> File n))
               | RequestError \<Rightarrow> (Inl OtherException, fs)))))"

text \<open>The check for an empty result, inside the \<^verbatim>\<open>try\<close> block.\<close>

definition validate_nonempty ::
  "(path \<Rightarrow> bool) \<Rightarrow> fsys \<Rightarrow> path \<Rightarrow> (exn + bool) \<times> fsys" where
  "validate_nonempty removable fs destination =
     (if path_exists fs destination \<and> fs destination = Some (File 0)
      then (case unlink removable fs destination of
              Inr fs' \<Rightarrow> (Inr False, fs')
            | Inl e \<Rightarrow> (Inl e, fs))
      else (Inr True, fs))"

text \<open>The body of both exception handlers:
  \<^verbatim>\<open>if destination.exists(): try: destination.unlink() except Exception: pass\<close>.\<close>

definition cleanup :: "(path \<Rightarrow> bool) \<Rightarrow> fsys \<Rightarrow> path \<Rightarrow> fsys" where
  "cleanup removable fs destination =
     (if path_exists fs destination
      then (case unlink removable fs destination of Inr fs' \<Rightarrow> fs' | Inl e \<Rightarrow> fs)
      else fs)"

text \<open>A \<^verbatim>\<open>try\<close> block followed by the two handlers, which both clean up and return
  \<^verbatim>\<open>False\<close>.\<close>

definition guarded ::
  "(path \<Rightarrow> bool) \<Rightarrow> (exn + bool) \<times> fsys \<Rightarrow> path \<Rightarrow> (exn + bool) \<times> fsys" where
  "guarded removable attempt destination =
     (case attempt of
        (Inr b, fs) \<Rightarrow> (Inr b, fs)
      | (Inl HttpError, fs) \<Rightarrow> (Inr False, cleanup removable fs destination)
      | (Inl e, fs) \<Rightarrow> (Inr False, cleanup removable fs destination))"

definition fetch_and_validate ::
  "(path \<Rightarrow> bool) \<Rightarrow> fetch \<Rightarrow> fsys \<Rightarrow> path \<Rightarrow> (exn + bool) \<times> fsys" where
  "fetch_and_validate removable outcome fs destination =
     (case fetch_to outcome fs destination of
        (Inl e, fs) \<Rightarrow> (Inl e, fs)
      | (Inr u, fs) \<Rightarrow> validate_nonempty removable fs destination)"

text \<open>The rewriting of the destination in \<^verbatim>\<open>_export_file\<close>, which stands before its
  \<^verbatim>\<open>try\<close> block.\<close>

definition export_destination :: "path \<Rightarrow> string \<Rightarrow> exn + path" where
  "export_destination destination extension =
     (if \<not> endswith (lower (str_path destination)) (lower extension)
      then with_suffix destination extension
      else Inr destination)"

text \<open>\<open>have_service\<close>: \<^verbatim>\<open>_get_service\<close> returns a handle, cached or built from present
  credentials; otherwise it raises \<^verbatim>\<open>RuntimeError\<close>.\<close>

definition export_file ::
  "bool \<Rightarrow> (path \<Rightarrow> bool) \<Rightarrow> remote \<Rightarrow> fsys \<Rightarrow> string \<Rightarrow> path \<Rightarrow> string \<Rightarrow> (exn + bool) \<times> fsys" where
  "export_file have_service removable remote fs fid destination source_mime_type =
     (if \<not> have_service then (Inl RuntimeError, fs)
      else
        (case dict_get GOOGLE_DOCS_EXPORT source_mime_type of
           None \<Rightarrow> (Inr False, fs)
         | Some (export_mime, extension) \<Rightarrow>
           (case export_destination destination extension of
              Inl e \<Rightarrow> (Inl e, fs)
            | Inr destination \<Rightarrow>
                guarded removable
                  (fetch_and_validate removable (remote fid (Some export_mime)) fs destination)
                  destination)))"

definition download_file ::
  "bool \<Rightarrow> (path \<Rightarrow> bool) \<Rightarrow> remote \<Rightarrow> fsys \<Rightarrow> string \<Rightarrow> path \<Rightarrow> string \<Rightarrow> (exn + bool) \<times> fsys" where
  "download_file have_service removable remote fs fid destination mimetype =
     (if \<not> have_service then (Inl RuntimeError, fs)
      else
        guarded removable
          (if dict_contains GOOGLE_DOCS_EXPORT mimetype
           then export_file have_service removable remote fs fid destination mimetype
           else fetch_and_validate removable (remote fid None) fs destination)
          destination)"

text \<open>The path a call of \<^verbatim>\<open>download_file\<close> opens for writing, when it opens one.\<close>

definition written_path :: "path \<Rightarrow> string \<Rightarrow> path" where
  "written_path destination mimetype =
     (case dict_get GOOGLE_DOCS_EXPORT mimetype of
        None \<Rightarrow> destination
      | Some (export_mime, extension) \<Rightarrow>
          (case export_destination destination extension of
             Inl e \<Rightarrow> destination
           | Inr d \<Rightarrow> d))"

text \<open>The outcome of the request that a call of \<^verbatim>\<open>download_file\<close> for an item of the
  given type makes: an export for a workspace document, the media otherwise.\<close>

definition requested :: "remote \<Rightarrow> string \<Rightarrow> string \<Rightarrow> fetch" where
  "requested remote fid mimetype =
     (case dict_get GOOGLE_DOCS_EXPORT mimetype of
        None \<Rightarrow> remote fid None
      | Some (export_mime, extension) \<Rightarrow> remote fid (Some export_mime))"

section \<open>utils/paths.py: the download directories\<close>

text \<open>Each helper computes a directory below the download directory and creates it;
  the file system is returned also when the creation raises.\<close>

definition make_dir :: "fsys \<Rightarrow> path \<Rightarrow> (exn + path) \<times> fsys" where
  "make_dir fs p = (case mkdir_p fs p of Inl e \<Rightarrow> (Inl e, fs) | Inr fs' \<Rightarrow> (Inr p, fs'))"

definition get_videos_dir :: "fsys \<Rightarrow> path \<Rightarrow> (exn + path) \<times> fsys" where
  "get_videos_dir fs download_dir = make_dir fs (pjoin download_dir ''Videos'')"

definition get_drive_videos_dir :: "fsys \<Rightarrow> path \<Rightarrow> (exn + path) \<times> fsys" where
  "get_drive_videos_dir fs download_dir =
     (case get_videos_dir fs download_dir of
        (Inl e, fs) \<Rightarrow> (Inl e, fs)
      | (Inr videos_dir, fs) \<Rightarrow> make_dir fs (pjoin videos_dir ''Drive''))"

definition get_photos_videos_dir :: "fsys \<Rightarrow> path \<Rightarrow> (exn + path) \<times> fsys" where
  "get_photos_videos_dir fs download_dir =
     (case get_videos_dir fs download_dir of
        (Inl e, fs) \<Rightarrow> (Inl e, fs)
      | (Inr videos_dir, fs) \<Rightarrow> make_dir fs (pjoin videos_dir ''Photos''))"

definition get_documents_dir :: "fsys \<Rightarrow> path \<Rightarrow> (exn + path) \<times> fsys" where
  "get_documents_dir fs download_dir = make_dir fs (pjoin download_dir ''Documents'')"

section \<open>core/download_manager.py: the download loop\<close>

text \<open>
  The two adapters are parameters of the loop: \<open>drive_download fid destination
  mimetype fs\<close> and \<open>photos_download media_item_id destination fs\<close> return what the call
  returns or raises, and the file system it leaves. \<open>transfer_calls\<close> records every call
  of an adapter's download operation: the adapter, the item and the destination.
\<close>

type_synonym drive_adapter = "string \<Rightarrow> path \<Rightarrow> string \<Rightarrow> fsys \<Rightarrow> (exn + bool) \<times> fsys"
type_synonym photos_adapter = "string \<Rightarrow> path \<Rightarrow> fsys \<Rightarrow> (exn + bool) \<times> fsys"

record dl_world =
  files :: fsys
  transfer_calls :: "(string \<times> string \<times> path) list"

text \<open>\<^verbatim>\<open>str(e)\<close>: the message of \<^verbatim>\<open>_get_service\<close>'s error; for the other exceptions the
  name stands for the message.\<close>

fun exn_message :: "exn \<Rightarrow> string" where
  "exn_message RuntimeError = ''Not authenticated with Google''"
| "exn_message TypeError = ''TypeError''"
| "exn_message ValueError = ''ValueError''"
| "exn_message OSError = ''OSError''"
| "exn_message HttpError = ''HttpError''"
| "exn_message OtherException = ''Exception''"

definition destination_dir ::
  "fsys \<Rightarrow> FileState \<Rightarrow> string \<Rightarrow> path \<Rightarrow> (exn + path) \<times> fsys" where
  "destination_dir fs file_state source_type dl_path =
     (if startswith (mime_type file_state) ''video/''
         \<or> dict_contains GOOGLE_DOCS_EXPORT (mime_type file_state)
      then
        (if source_type = ''drive'' then
           (if startswith (mime_type file_state) ''video/''
            then get_drive_videos_dir fs dl_path
            else get_documents_dir fs dl_path)
         else get_photos_videos_dir fs dl_path)
      else get_documents_dir fs dl_path)"

text \<open>The \<^verbatim>\<open>except Exception\<close> handler of \<^verbatim>\<open>_download_single_file\<close>.\<close>

definition download_failed ::
  "exn \<Rightarrow> FileState \<Rightarrow> dl_world \<Rightarrow> (bool \<times> bool) \<times> FileState \<times> dl_world" where
  "download_failed e file_state w =
     ((False, False), file_state\<lparr>error_message := Some (exn_message e)\<rparr>, w)"

text \<open>\<^verbatim>\<open>_download_single_file\<close> returns the pair (success, was skipped); the record it
  mutates and the world are returned with it.\<close>

definition download_single_file ::
  "drive_adapter \<Rightarrow> photos_adapter \<Rightarrow> FileState \<Rightarrow> string \<Rightarrow> path \<Rightarrow> dl_world
   \<Rightarrow> (bool \<times> bool) \<times> FileState \<times> dl_world" where
  "download_single_file drive_download photos_download file_state source_type dl_path w =
     (case destination_dir (files w) file_state source_type dl_path of
        (Inl e, fs) \<Rightarrow> download_failed e file_state (w\<lparr>files := fs\<rparr>)
      | (Inr dest_dir, fs) \<Rightarrow>
        (let destination = pjoin dest_dir (name file_state);
             w = w\<lparr>files := fs\<rparr>
         in
           if path_exists fs destination
           then ((True, True), file_state\<lparr>local_path := Some (str_path destination)\<rparr>, w)
           else
             (let w = w\<lparr>transfer_calls := transfer_calls w
                         @ [(if source_type = ''drive'' then ''drive'' else ''photos'',
                             file_id file_state, destination)]\<rparr>;
                  result =
                    (if source_type = ''drive''
                     then drive_download (file_id file_state) destination (mime_type file_state) fs
                     else photos_download (file_id file_state) destination fs);
                  w = w\<lparr>files := snd result\<rparr>
              in case fst result of
                   Inl e \<Rightarrow> download_failed e file_state w
                 | Inr success \<Rightarrow>
                     ((success, False),
                      (if success
                       then file_state\<lparr>local_path := Some (str_path destination)\<rparr>
                       else file_state\<lparr>error_message := Some ''Download failed''\<rparr>),
                      w))))"

text \<open>The state of a run of \<^verbatim>\<open>_download_worker\<close>: the manager, the state store, the
  world, and the three counters that \<^verbatim>\<open>notify_download_complete\<close> receives at the end.\<close>

record worker_state =
  manager :: DownloadManager
  store :: ConfigManager
  world :: dl_world
  downloaded_count :: int
  skipped_count :: int
  error_count :: int

text \<open>The loop body from \<^verbatim>\<open>self._current_file = file_state.name\<close> on; \<open>now\<close> is
  \<^verbatim>\<open>datetime.now().isoformat()\<close>.\<close>

definition process_item ::
  "drive_adapter \<Rightarrow> photos_adapter \<Rightarrow> path \<Rightarrow> string \<Rightarrow> FileState \<times> string
   \<Rightarrow> worker_state \<Rightarrow> worker_state" where
  "process_item drive_download photos_download dl_path now item s =
     (let file_state = fst item; source_type = snd item;
          s = s\<lparr>manager := (manager s)\<lparr>current_file := Some (name file_state)\<rparr>\<rparr>;
          r = download_single_file drive_download photos_download file_state source_type
                dl_path (world s);
          success = fst (fst r); was_skipped = snd (fst r);
          file_state = fst (snd r);
          s = s\<lparr>world := snd (snd r)\<rparr>;
          s = (if success then
                 (if was_skipped then s\<lparr>skipped_count := skipped_count s + 1\<rparr>
                  else s\<lparr>downloaded_count := downloaded_count s + 1\<rparr>)
               else s\<lparr>error_count := error_count s + 1\<rparr>);
          file_state = (if success
                        then file_state\<lparr>status := ''complete'', downloaded_at := Some now\<rparr>
                        else file_state\<lparr>status := ''error''\<rparr>)
      in if source_type = ''drive''
         then s\<lparr>store := update_drive_file file_state (store s)\<rparr>
         else s\<lparr>store := update_photos_file file_state (store s)\<rparr>)"

text \<open>
  The stop and pause flags are written by other threads. What the loop sees of them at
  the head of iteration \<open>i\<close> is one of: it goes on (after a pause, if any, has ended), it
  sees the stop flag and leaves the loop, or the pause never ends and the worker stays in
  its polling wait. A run that never returns is \<open>None\<close>.
\<close>

datatype control = Proceed | StopSeen | PausedForever

fun worker_loop ::
  "drive_adapter \<Rightarrow> photos_adapter \<Rightarrow> path \<Rightarrow> (nat \<Rightarrow> control) \<Rightarrow> (nat \<Rightarrow> string) \<Rightarrow> nat
   \<Rightarrow> (FileState \<times> string) list \<Rightarrow> worker_state \<Rightarrow> worker_state option" where
  "worker_loop drive_download photos_download dl_path ctl clock i [] s = Some s"
| "worker_loop drive_download photos_download dl_path ctl clock i (item # items) s =
     (case ctl i of
        StopSeen \<Rightarrow> Some s
      | PausedForever \<Rightarrow> None
      | Proceed \<Rightarrow>
          worker_loop drive_download photos_download dl_path ctl clock (Suc i) items
            (process_item drive_download photos_download dl_path (clock i) item s))"

definition pending_files :: "ConfigManager \<Rightarrow> (FileState \<times> string) list" where
  "pending_files cm =
     map (\<lambda>f. (f, ''drive'')) (filter (\<lambda>f. status f = ''pending'') (dict_values (drive_state cm)))
     @ map (\<lambda>f. (f, ''photos''))
         (filter (\<lambda>f. status f = ''pending'') (dict_values (photos_state cm)))"

text \<open>\<^verbatim>\<open>_download_worker\<close>. \<^verbatim>\<open>Path(config.download_path)\<close> raises \<^verbatim>\<open>TypeError\<close> unless the
  value is a string; the exception ends the thread.\<close>

definition download_worker ::
  "string \<Rightarrow> (string \<Rightarrow> bool) \<Rightarrow> drive_adapter \<Rightarrow> photos_adapter \<Rightarrow> (nat \<Rightarrow> control)
   \<Rightarrow> (nat \<Rightarrow> string) \<Rightarrow> DownloadManager \<Rightarrow> ConfigManager \<Rightarrow> dl_world
   \<Rightarrow> (exn + worker_state) option" where
  "download_worker default_dir other_attrs drive_download photos_download ctl clock dm cm w =
     (let (config, cm) = get_config default_dir other_attrs cm in
      case download_path config of
        PStr p \<Rightarrow>
          (let cm = get_drive_state cm;
               cm = get_photos_state cm;
               pending_list = pending_files cm;
               s = \<lparr>manager = dm, store = cm, world = w, downloaded_count = 0,
                    skipped_count = 0, error_count = 0\<rparr>
           in if pending_list = []
              then Some (Inr (s\<lparr>manager := dm\<lparr>is_downloading := False\<rparr>\<rparr>))
              else
                (case worker_loop drive_download photos_download (parts_of p) ctl clock 0
                        pending_list s of
                   None \<Rightarrow> None
                 | Some s \<Rightarrow>
                     Some (Inr (s\<lparr>manager := (manager s)\<lparr>current_file := None,
                                                          is_downloading := False\<rparr>\<rparr>))))
      | _ \<Rightarrow> Some (Inl TypeError))"

section \<open>Example values\<close>

definition srt_example :: "segment list" where
  "srt_example = [\<lparr>seg_start = 0, seg_end = 3 / 2, seg_text = ''hello''\<rparr>,
                  \<lparr>seg_start = 3 / 2, seg_end = 3, seg_text = ''world''\<rparr>]"

text \<open>Five records: two downloaded videos, one of them transcribed, a downloaded
  document, and two items of the photo library that are not downloaded.\<close>

definition done_video :: FileState where
  "done_video = (new_FileState ''v1'' ''holiday.mp4'' ''drive'' ''video/mp4'' 1000 ''complete'')
     \<lparr>downloaded_at := Some ''2024-01-01T10:00:00'',
      local_path := Some ''D:/dl/Videos/Drive/holiday.mp4'',
      transcription_status := ''complete'', transcribed_at := Some ''2024-01-02T09:00:00''\<rparr>"

definition fresh_video :: FileState where
  "fresh_video = (new_FileState ''v2'' ''party.mp4'' ''drive'' ''video/mp4'' 2000 ''complete'')
     \<lparr>downloaded_at := Some ''2024-01-01T10:05:00'',
      local_path := Some ''D:/dl/Videos/Drive/party.mp4''\<rparr>"

definition done_document :: FileState where
  "done_document = (new_FileState ''d1'' ''notes.pdf'' ''drive'' ''application/pdf'' 300 ''complete'')
     \<lparr>downloaded_at := Some ''2024-01-01T10:06:00'',
      local_path := Some ''D:/dl/Documents/notes.pdf''\<rparr>"

definition pending_clip :: FileState where
  "pending_clip = new_FileState ''p1'' ''clip.mp4'' ''photos'' ''video/mp4'' 0 ''pending''"

definition failed_clip :: FileState where
  "failed_clip = new_FileState ''p2'' ''beach.mp4'' ''photos'' ''video/mp4'' 0 ''error''"

definition holiday_transcribed :: "(string, TranscriptionState) dict" where
  "holiday_transcribed =
     [(''D:/dl/Videos/Drive/holiday.mp4'',
       \<lparr>video_path = ''D:/dl/Videos/Drive/holiday.mp4'', t_status = ''complete'',
        transcript_path = Some ''D:/dl/Videos/Drive/holiday.txt'',
        t_transcribed_at = Some ''2024-01-02T09:00:00'', t_error_message = None\<rparr>)]"

text \<open>A sample of the class attributes that are not fields.\<close>

definition sample_other_attrs :: "string \<Rightarrow> bool" where
  "sample_other_attrs k =
     (k \<in> set [''__init__'', ''__post_init__'', ''__eq__'', ''__repr__'', ''__doc__''])"

text \<open>The transcribed video as a later listing reports it, and stores for the scans.\<close>

definition rescanned_video :: FileState where
  "rescanned_video =
     new_FileState ''v1'' ''holiday (1).mp4'' ''drive'' ''video/mp4'' 1024 ''pending''"

definition store_with_video :: ConfigManager where
  "store_with_video =
     \<lparr>cm_config = Some (AppConfig_default ''D:/dl''),
      drive_state = [(''v1'', done_video)], photos_state = [],
      transcription_state = holiday_transcribed,
      config_file = Absent, drive_state_file = Some [(''v1'', done_video)],
      photos_state_file = None, transcription_state_file = Some holiday_transcribed\<rparr>"

definition store_empty :: ConfigManager where
  "store_empty =
     \<lparr>cm_config = Some (AppConfig_default ''D:/dl''),
      drive_state = [], photos_state = [], transcription_state = [],
      config_file = Absent, drive_state_file = None,
      photos_state_file = None, transcription_state_file = None\<rparr>"

definition custom_config :: AppConfig where
  "custom_config =
     (AppConfig_default ''D:/dl'')
       \<lparr>download_photos := PBool False, exclude_patterns := PList [PStr ''*.bak'']\<rparr>"

definition idle_manager :: DownloadManager where
  "idle_manager = \<lparr>is_downloading = False, is_paused = False, should_stop = False,
                    current_file = None, threads_started = 0\<rparr>"

text \<open>An empty file system, a destination below the download directory, and a remote
  service whose transfers break off after some bytes.\<close>

definition no_files :: fsys where
  "no_files = (\<lambda>p. None)"

definition video_destination :: path where
  "video_destination = [''D:'', ''dl'', ''Videos'', ''Drive'', ''talk.mp4'']"

definition removal_succeeds :: "path \<Rightarrow> bool" where
  "removal_succeeds = (\<lambda>p. True)"

definition removal_fails :: "path \<Rightarrow> bool" where
  "removal_fails = (\<lambda>p. False)"

definition broken_remote :: remote where
  "broken_remote = (\<lambda>fid export_mime. HttpFailure 4096)"

text \<open>A spreadsheet of the workspace, its destination as the download loop builds it,
  and a remote service whose transfers succeed.\<close>

definition sheet_mime :: string where
  "sheet_mime = ''application/vnd.google-apps.spreadsheet''"

definition budget_destination :: path where
  "budget_destination = [''D:'', ''dl'', ''Documents'', ''Budget 2024'']"

definition healthy_remote :: remote where
  "healthy_remote = (\<lambda>fid export_mime. Chunks 2048)"

text \<open>A run of the download loop over one pending item of the photo library whose
  destination is on disk already, with adapters that would succeed.\<close>

definition clip_on_disk :: fsys where
  "clip_on_disk =
     (\<lambda>p. if p = [''D:'', ''dl'', ''Videos'', ''Photos'', ''clip.mp4''] then Some (File 500)
          else None)"

definition drive_adapter_ok :: drive_adapter where
  "drive_adapter_ok = (\<lambda>fid destination mimetype fs.
      download_file True removal_succeeds healthy_remote fs fid destination mimetype)"

definition photos_adapter_ok :: photos_adapter where
  "photos_adapter_ok = (\<lambda>media_item_id destination fs.
      (Inr True, fs(destination \<mapsto> File 700)))"

definition clip_run_start :: worker_state where
  "clip_run_start =
     \<lparr>manager = idle_manager\<lparr>is_downloading := True, threads_started := 1\<rparr>,
      store = store_empty\<lparr>photos_state := [(''p1'', pending_clip)]\<rparr>,
      world = \<lparr>files = clip_on_disk, transfer_calls = []\<rparr>,
      downloaded_count = 0, skipped_count = 0, error_count = 0\<rparr>"

section \<open>Properties\<close>

subsection \<open>Subtitle output\<close>

text \<open>
  C4. For the segments (0.0, 1.5, hello) and (1.5, 3.0, world) the SubRip writer
  produces exactly two blocks: the index counted from 1, the two time stamps as
  zero-padded hours, minutes and seconds with a comma before three digits of
  milliseconds, the trimmed text, and an empty line after each block.
\<close>

theorem write_srt_example:
  "write_srt srt_example =
     ''1\<newline>00:00:00,000 --> 00:00:01,500\<newline>hello\<newline>\<newline>2\<newline>00:00:01,500 --> 00:00:03,000\<newline>world\<newline>\<newline>''"
  by code_simp

subsection \<open>Statistics\<close>

lemma stats_step_vft:
  "videos_for_transcription (stats_step tstates stats state) =
     videos_for_transcription stats + (if counted_for_transcription tstates state then 1 else 0)"
  by (simp add: stats_step_def counted_for_transcription_def Let_def split: option.splits)

lemma foldl_stats_vft:
  "videos_for_transcription (foldl (stats_step tstates) stats fs) =
     videos_for_transcription stats
     + int (length (filter (counted_for_transcription tstates) fs))"
  by (induction fs arbitrary: stats) (simp_all add: stats_step_vft)

text \<open>
  C2, as the code has it. \<^verbatim>\<open>videos_for_transcription\<close> is the number of records, over
  both sources, that are completed videos whose own \<^verbatim>\<open>transcription_status\<close> is
  \<^verbatim>\<open>pending\<close> or \<^verbatim>\<open>n/a\<close> and for which, when the local path is set and not empty, the
  transcription state holds no record for that path or one with status \<^verbatim>\<open>pending\<close>.
  For the five example records, of which one downloaded video is transcribed, it is 1.
\<close>

theorem stats_count_videos_for_transcription:
  "videos_for_transcription (get_download_stats drive photos tstates) =
     int (length (filter (counted_for_transcription tstates)
                    (dict_values drive @ dict_values photos)))
   \<and> videos_for_transcription
        (get_download_stats
           [(''v1'', done_video), (''v2'', fresh_video), (''d1'', done_document)]
           [(''p1'', pending_clip), (''p2'', failed_clip)] holiday_transcribed) = 1"
proof
  show "videos_for_transcription (get_download_stats drive photos tstates) =
     int (length (filter (counted_for_transcription tstates)
                    (dict_values drive @ dict_values photos)))"
    unfolding get_download_stats_def by (simp add: foldl_stats_vft DownloadStats0_def)
  show "videos_for_transcription
        (get_download_stats
           [(''v1'', done_video), (''v2'', fresh_video), (''d1'', done_document)]
           [(''p1'', pending_clip), (''p2'', failed_clip)] holiday_transcribed) = 1"
    by code_simp
qed

theorem stats_count_witness:
  "videos_for_transcription (get_download_stats [(''v2'', fresh_video)] [] []) = 1"
  using stats_count_videos_for_transcription [of "[(''v2'', fresh_video)]" "[]" "[]"]
  by (simp add: dict_values_def counted_for_transcription_def fresh_video_def new_FileState_def
        is_video_def startswith_def truthy_str_def)

text \<open>
  The rule as the specification words it does not look at the record's own
  \<^verbatim>\<open>transcription_status\<close>. A downloaded video that is marked as transcribed while the
  transcription state holds no record for its path satisfies that rule, and is not
  counted.
\<close>

theorem stats_spec_rule_counterexample:
  "awaiting_transcription_spec [] done_video
   \<and> videos_for_transcription (get_download_stats [(''v1'', done_video)] [] [])
       \<noteq> int (length (filter (awaiting_transcription_spec []) [done_video]))"
  by code_simp

subsection \<open>Rescans\<close>

lemma dict_get_set_same: "dict_get (dict_set d k v) k = Some v"
  by (induction d) auto

lemma dict_get_set_other: "k' \<noteq> k \<Longrightarrow> dict_get (dict_set d k v) k' = dict_get d k'"
  by (induction d) auto

text \<open>What one step of the merge loop stores for a known id.\<close>

lemma merge_file_known:
  "dict_get state (file_id file) = Some existing \<Longrightarrow>
   dict_get (merge_file state file) (file_id file) =
     Some (file\<lparr>status := status existing, downloaded_at := downloaded_at existing,
                local_path := local_path existing\<rparr>)"
  by (simp add: merge_file_def dict_get_set_same)

text \<open>
  C1. The store holds a downloaded and transcribed video. A rescan that lists the same
  id keeps \<^verbatim>\<open>status\<close>, \<^verbatim>\<open>local_path\<close> and \<^verbatim>\<open>downloaded_at\<close> of the stored record, and
  stores \<^verbatim>\<open>transcription_status\<close> and \<^verbatim>\<open>transcribed_at\<close> as the fresh record has them:
  \<^verbatim>\<open>pending\<close> and \<^verbatim>\<open>None\<close>.
\<close>

theorem rescan_resets_transcription_fields:
  "transcription_status done_video = ''complete''
   \<and> transcribed_at done_video = Some ''2024-01-02T09:00:00''
   \<and> (case scan_sources True ''D:/dl'' sample_other_attrs (\<lambda>v d. Inr [rescanned_video])
              (Inr []) store_with_video of
         Inl e \<Rightarrow> False
       | Inr (stats, cm) \<Rightarrow>
           (case dict_get (drive_state cm) ''v1'' of
              None \<Rightarrow> False
            | Some f \<Rightarrow> status f = ''complete''
                        \<and> local_path f = local_path done_video
                        \<and> downloaded_at f = downloaded_at done_video
                        \<and> transcription_status f = ''pending''
                        \<and> transcribed_at f = None))"
  by code_simp

subsection \<open>A listing that fails\<close>

text \<open>A listing that raises leaves the same result and the same store as a listing that
  finds nothing.\<close>

lemma scan_failed_as_empty:
  "scan_sources auth dd oa (\<lambda>v d. Inl e) lp cm = scan_sources auth dd oa (\<lambda>v d. Inr []) lp cm"
  by (simp add: scan_sources_def scan_collect_def Let_def split: prod.splits)

text \<open>
  C8. The Drive listing raises and the photo library lists one item. The scan returns
  normally, the item is merged and written to the state file, and the message of the
  failure is in the local list of errors only: what \<^verbatim>\<open>scan_sources\<close> returns and stores
  is what it returns and stores when the Drive listing is empty.
\<close>

theorem failed_listing_not_surfaced:
  "scan_errors (scan_collect (AppConfig_default ''D:/dl'') (\<lambda>v d. Inl ''HttpError 500'')
                  (Inr [pending_clip]))
     = [''drive: HttpError 500'']
   \<and> scan_sources True ''D:/dl'' sample_other_attrs (\<lambda>v d. Inl ''HttpError 500'')
        (Inr [pending_clip]) store_empty
     = scan_sources True ''D:/dl'' sample_other_attrs (\<lambda>v d. Inr [])
        (Inr [pending_clip]) store_empty
   \<and> (case scan_sources True ''D:/dl'' sample_other_attrs (\<lambda>v d. Inl ''HttpError 500'')
              (Inr [pending_clip]) store_empty of
         Inl e \<Rightarrow> False
       | Inr (stats, cm) \<Rightarrow> photos_state cm = [(''p1'', pending_clip)]
                             \<and> photos_state_file cm = Some [(''p1'', pending_clip)]
                             \<and> total stats = 1)"
  by code_simp

subsection \<open>The configuration document\<close>

text \<open>\<^verbatim>\<open>AppConfig()\<close> is the constructor without keywords. Loading what \<^verbatim>\<open>save_config\<close>
  wrote gives back every field but \<^verbatim>\<open>exclude_patterns\<close>, which takes its default, whatever
  the configuration was (\<^verbatim>\<open>__post_init__\<close> runs again on the loaded value).\<close>

lemma AppConfig_init_empty: "AppConfig_init dd [] = Inr (AppConfig_default dd)"
  by (simp add: AppConfig_init_def AppConfig_default_def kwarg_def)

lemma load_saved_config:
  "\<not> other_attrs ''exclude_patterns'' \<Longrightarrow>
   load_config dd other_attrs (Doc (PDict (asdict c)))
     = post_init dd (c\<lparr>exclude_patterns := PList [PStr ''*.tmp'', PStr ''*.part'']\<rparr>)"
  by (cases c)
     (simp add: load_config_def asdict_def hasattr_AppConfig_def class_level_defaults_def
        AppConfig_init_def field_names_def kwarg_def)

text \<open>
  C9. A configuration with its own exclude patterns is saved and loaded again. The
  loaded configuration has the default patterns: the key \<^verbatim>\<open>exclude_patterns\<close> of the
  document does not pass the \<^verbatim>\<open>hasattr\<close> filter. The other fields come back.
\<close>

theorem config_roundtrip_loses_exclude_patterns:
  "exclude_patterns custom_config = PList [PStr ''*.bak'']
   \<and> load_config ''D:/dl'' sample_other_attrs
        (config_file (save_config (Some custom_config) store_empty))
       = custom_config\<lparr>exclude_patterns := PList [PStr ''*.tmp'', PStr ''*.part'']\<rparr>
   \<and> load_config ''D:/dl'' sample_other_attrs
        (config_file (save_config (Some custom_config) store_empty))
       \<noteq> custom_config"
  by code_simp

subsection \<open>Strings and paths\<close>

lemma endswith_iff: "endswith s e = (\<exists>pre. s = pre @ e)"
proof
  assume "endswith s e"
  then have "s = take (length s - length e) s @ e"
    unfolding endswith_def by (metis append_take_drop_id)
  then show "\<exists>pre. s = pre @ e" ..
next
  assume "\<exists>pre. s = pre @ e"
  then show "endswith s e" by (auto simp: endswith_def)
qed

lemma lower_append: "lower (a @ b) = lower a @ lower b"
  by (simp add: lower_def)

lemma endswith_lower: "endswith s e \<Longrightarrow> endswith (lower s) (lower e)"
  by (auto simp: endswith_iff lower_append)

lemma str_path_last: "p \<noteq> [] \<Longrightarrow> \<exists>pre. str_path p = pre @ last p"
  by (induction p rule: str_path.induct) auto

lemma str_path_endswith: "endswith n e \<Longrightarrow> endswith (str_path (q @ [n])) e"
proof -
  assume "endswith n e"
  then obtain a where a: "n = a @ e" by (auto simp: endswith_iff)
  obtain pre where "str_path (q @ [n]) = pre @ last (q @ [n])"
    using str_path_last [of "q @ [n]"] by auto
  then have "str_path (q @ [n]) = (pre @ a) @ e" using a by simp
  then show ?thesis unfolding endswith_iff by blast
qed

lemma with_suffix_result:
  "path_name p \<noteq> [] \<Longrightarrow>
   \<exists>n'. with_suffix p e = Inr (butlast p @ [n']) \<and> endswith n' e"
  by (auto simp: with_suffix_def Let_def endswith_iff)

lemma ancestors_length: "q \<in> set (ancestors_and_self p) \<Longrightarrow> length q \<le> length p"
  by (auto simp: ancestors_and_self_def)

lemma foldl_upd_other:
  "q \<notin> set qs \<Longrightarrow> foldl (\<lambda>f q. f(q \<mapsto> Dir)) fs qs q = fs q"
  by (induction qs arbitrary: fs) auto

lemma foldl_upd_file:
  "foldl (\<lambda>f q. f(q \<mapsto> Dir)) fs qs q = Some (File n) \<Longrightarrow> fs q = Some (File n)"
proof (induction qs arbitrary: fs)
  case Nil then show ?case by simp
next
  case (Cons a qs)
  from Cons.prems have "foldl (\<lambda>f q. f(q \<mapsto> Dir)) (fs(a \<mapsto> Dir)) qs q = Some (File n)"
    by (simp only: foldl_Cons)
  then have "(fs(a \<mapsto> Dir)) q = Some (File n)" by (rule Cons.IH)
  then show ?case by (cases "q = a") simp_all
qed

lemma mkdir_p_other:
  "mkdir_p fs p = Inr fs' \<Longrightarrow> length p < length q \<Longrightarrow> fs' q = fs q"
  using ancestors_length [of q p] foldl_upd_other [of q "ancestors_and_self p" fs]
  by (auto simp: mkdir_p_def split: if_splits)

lemma cleanup_not_file: "removable d \<Longrightarrow> \<not> is_file (cleanup removable fs d) d"
  by (auto simp: cleanup_def is_file_def unlink_def path_exists_def
        split: option.splits node.splits)

lemma cleanup_stuck:
  "\<not> removable d \<Longrightarrow> cleanup removable fs d = fs"
  by (auto simp: cleanup_def unlink_def split: option.splits node.splits)

lemma guarded_cases:
  "guarded removable a d = (r, fs') \<Longrightarrow>
     (\<exists>b. a = (Inr b, fs') \<and> r = Inr b)
   \<or> ((\<exists>e. fst a = Inl e) \<and> r = Inr False \<and> (removable d \<longrightarrow> \<not> is_file fs' d))"
  by (cases a) (auto simp: guarded_def cleanup_not_file split: sum.splits exn.splits)

lemma fetch_and_validate_cases:
  "fetch_and_validate removable outcome fs d = (r, fs') \<Longrightarrow>
     (r = Inr True \<and> (\<exists>n>0. outcome = Chunks n \<and> fs' d = Some (File n)))
   \<or> (r = Inr False \<and> outcome = Chunks 0 \<and> fs' d = None)
   \<or> (\<exists>e. r = Inl e)"
  by (auto simp: fetch_and_validate_def fetch_to_def validate_nonempty_def unlink_def
        path_exists_def is_file_def
        split: fetch.splits sum.splits if_splits prod.splits option.splits node.splits)

text \<open>
  C6 as stated fails where the removal of the artifact fails. The transfer breaks off
  after 4096 bytes and the partial file cannot be removed: the handler swallows the
  failure of \<^verbatim>\<open>unlink\<close>, \<^verbatim>\<open>download_file\<close> returns \<^verbatim>\<open>False\<close>, and the 4096 bytes stay at
  the destination. The same happens to the empty file of an empty result.
\<close>

theorem download_file_stuck_artifact_counterexample:
  "fst (download_file True removal_fails broken_remote no_files ''f1'' video_destination
          ''video/mp4'') = Inr False
   \<and> snd (download_file True removal_fails broken_remote no_files ''f1'' video_destination
            ''video/mp4'') video_destination = Some (File 4096)
   \<and> fst (download_file True removal_fails (\<lambda>fid export_mime. Chunks 0) no_files ''f1''
            video_destination ''video/mp4'') = Inr False
   \<and> snd (download_file True removal_fails (\<lambda>fid export_mime. Chunks 0) no_files ''f1''
            video_destination ''video/mp4'') video_destination = Some (File 0)"
  by code_simp

text \<open>
  C6, as the code has it. A call of the Drive adapter's \<^verbatim>\<open>download_file\<close> with a service
  handle returns \<^verbatim>\<open>True\<close> or \<^verbatim>\<open>False\<close> and never raises. It returns \<^verbatim>\<open>False\<close> when the
  transfer ends with an empty file and when the request or the transfer raises, after it
  has tried to remove the file it wrote; a failure of that removal is swallowed. When it
  returns \<^verbatim>\<open>False\<close> and the path it writes to (the destination, or the destination with
  the export extension) is removable, no regular file is left there. When it returns
  \<^verbatim>\<open>True\<close> the transfer ended normally and its bytes are at that path. Without a handle
  the call raises before it touches the file system.
\<close>

theorem download_file_failure_leaves_no_artifact:
  "(fst (download_file True removable remote fs fid dest mimetype) = Inr True
      \<or> fst (download_file True removable remote fs fid dest mimetype) = Inr False)
   \<and> (fst (download_file True removable remote fs fid dest mimetype) = Inr False
        \<and> removable (written_path dest mimetype) \<longrightarrow>
        \<not> is_file (snd (download_file True removable remote fs fid dest mimetype))
             (written_path dest mimetype))
   \<and> (requested remote fid mimetype = Chunks 0 \<longrightarrow>
        fst (download_file True removable remote fs fid dest mimetype) = Inr False)
   \<and> ((\<forall>n. requested remote fid mimetype \<noteq> Chunks n) \<longrightarrow>
        fst (download_file True removable remote fs fid dest mimetype) = Inr False)
   \<and> (fst (download_file True removable remote fs fid dest mimetype) = Inr True \<longrightarrow>
        (\<exists>n>0. requested remote fid mimetype = Chunks n
               \<and> snd (download_file True removable remote fs fid dest mimetype)
                     (written_path dest mimetype) = Some (File n)))
   \<and> download_file False removable remote fs fid dest mimetype = (Inl RuntimeError, fs)"
proof (cases "dict_get GOOGLE_DOCS_EXPORT mimetype")
  case None
  obtain r fs' where res: "download_file True removable remote fs fid dest mimetype = (r, fs')"
    by (cases "download_file True removable remote fs fid dest mimetype")
  obtain r0 fs0 where a: "fetch_and_validate removable (remote fid None) fs dest = (r0, fs0)"
    by (cases "fetch_and_validate removable (remote fid None) fs dest")
  have g: "guarded removable (r0, fs0) dest = (r, fs')"
    using res a None by (simp add: download_file_def dict_contains_def)
  have w: "written_path dest mimetype = dest" "requested remote fid mimetype = remote fid None"
    using None by (simp_all add: written_path_def requested_def)
  show ?thesis
    using guarded_cases [OF g] fetch_and_validate_cases [OF a] res w
    by (auto simp: is_file_def download_file_def)
next
  case (Some ee)
  obtain em ext where ee: "ee = (em, ext)" by (cases ee)
  obtain r fs' where res: "download_file True removable remote fs fid dest mimetype = (r, fs')"
    by (cases "download_file True removable remote fs fid dest mimetype")
  have rq: "requested remote fid mimetype = remote fid (Some em)"
    using Some ee by (simp add: requested_def)
  show ?thesis
  proof (cases "export_destination dest ext")
    case (Inl e)
    have "export_file True removable remote fs fid dest mimetype = (Inl e, fs)"
      using Some ee Inl by (simp add: export_file_def)
    then have g: "guarded removable (Inl e, fs) dest = (r, fs')"
      using res Some by (simp add: download_file_def dict_contains_def)
    have w: "written_path dest mimetype = dest"
      using Some ee Inl by (simp add: written_path_def)
    show ?thesis using guarded_cases [OF g] res w by (auto simp: download_file_def)
  next
    case (Inr d)
    obtain r0 fs0 where a: "fetch_and_validate removable (remote fid (Some em)) fs d = (r0, fs0)"
      by (cases "fetch_and_validate removable (remote fid (Some em)) fs d")
    obtain r1 fs1 where g1: "guarded removable (r0, fs0) d = (r1, fs1)"
      by (cases "guarded removable (r0, fs0) d")
    have ex: "export_file True removable remote fs fid dest mimetype = (r1, fs1)"
      using Some ee Inr a g1 by (simp add: export_file_def)
    then have g: "guarded removable (r1, fs1) dest = (r, fs')"
      using res Some by (simp add: download_file_def dict_contains_def)
    have w: "written_path dest mimetype = d"
      using Some ee Inr by (simp add: written_path_def)
    show ?thesis
      using guarded_cases [OF g] guarded_cases [OF g1] fetch_and_validate_cases [OF a] res w rq
      by (auto simp: is_file_def download_file_def)
  qed
qed

theorem download_file_failure_witness:
  "(\<forall>n. requested broken_remote ''f1'' ''video/mp4'' \<noteq> Chunks n)
   \<and> removal_succeeds (written_path video_destination ''video/mp4'')
   \<and> fst (download_file True removal_succeeds broken_remote no_files ''f1'' video_destination
            ''video/mp4'') = Inr False
   \<and> \<not> is_file (snd (download_file True removal_succeeds broken_remote no_files ''f1''
                         video_destination ''video/mp4''))
          video_destination"
  using download_file_failure_leaves_no_artifact
          [of removal_succeeds broken_remote no_files "''f1''" video_destination "''video/mp4''"]
  by (simp add: requested_def broken_remote_def GOOGLE_DOCS_EXPORT_def written_path_def
        removal_succeeds_def)

subsection \<open>Exports\<close>

lemma export_destination_rewritten:
  assumes nm: "path_name dest \<noteq> []"
    and ne: "\<not> endswith (lower (str_path dest)) (lower ext)"
  shows "\<exists>d. export_destination dest ext = Inr d \<and> endswith (str_path d) ext \<and> d \<noteq> dest
             \<and> parent d = parent dest \<and> length d = length dest"
proof -
  obtain n' where w: "with_suffix dest ext = Inr (butlast dest @ [n'])" and e: "endswith n' ext"
    using with_suffix_result [OF nm] by blast
  let ?d = "butlast dest @ [n']"
  have ed: "export_destination dest ext = Inr ?d"
    using ne w by (simp add: export_destination_def)
  have es: "endswith (str_path ?d) ext" using e by (rule str_path_endswith)
  have "?d \<noteq> dest"
  proof
    assume "?d = dest"
    then have "endswith (str_path dest) ext" using es by simp
    then show False using ne endswith_lower by blast
  qed
  moreover have "dest \<noteq> []" using nm by (auto simp: path_name_def)
  ultimately show ?thesis using ed es by (auto simp: parent_def)
qed

text \<open>
  C5. For an item whose type is in the export table, with a destination that does not
  end (compared in lower case) in the extension of the table: the path the adapter
  writes to is the destination with its suffix replaced by that extension, it ends in
  the extension and differs from the destination; whenever the export succeeds the file
  is at that path and the path the caller gave is as it was. A destination with an empty
  name cannot be rewritten: the call then returns \<^verbatim>\<open>False\<close> and writes nothing.
\<close>

theorem export_rewrites_extension:
  assumes tab: "dict_get GOOGLE_DOCS_EXPORT mimetype = Some (export_mime, ext)"
    and ne: "\<not> endswith (lower (str_path dest)) (lower ext)"
  shows "(path_name dest \<noteq> [] \<longrightarrow>
            (\<exists>d. export_destination dest ext = Inr d \<and> written_path dest mimetype = d
                 \<and> endswith (str_path d) ext \<and> d \<noteq> dest))
         \<and> (fst (download_file True removable remote fs fid dest mimetype) = Inr True \<longrightarrow>
              (\<exists>d n. endswith (str_path d) ext \<and> d \<noteq> dest \<and> 0 < n
                 \<and> snd (download_file True removable remote fs fid dest mimetype) d = Some (File n)
                 \<and> snd (download_file True removable remote fs fid dest mimetype) dest = fs dest))
         \<and> (path_name dest = [] \<longrightarrow>
              export_file True removable remote fs fid dest mimetype = (Inl ValueError, fs)
              \<and> fst (download_file True removable remote fs fid dest mimetype) = Inr False)"
proof (cases "path_name dest = []")
  case True
  have ed: "export_destination dest ext = Inl ValueError"
    using ne True by (simp add: export_destination_def with_suffix_def)
  then have ex: "export_file True removable remote fs fid dest mimetype = (Inl ValueError, fs)"
    using tab by (simp add: export_file_def)
  then have "fst (download_file True removable remote fs fid dest mimetype) = Inr False"
    using tab by (simp add: download_file_def dict_contains_def guarded_def)
  then show ?thesis using True ex by simp
next
  case False
  obtain d where d: "export_destination dest ext = Inr d" "endswith (str_path d) ext" "d \<noteq> dest"
      "parent d = parent dest" "length d = length dest"
    using export_destination_rewritten [OF False ne] by blast
  have w: "written_path dest mimetype = d" using tab d(1) by (simp add: written_path_def)
  have ok_case: "(\<exists>n>0. snd (download_file True removable remote fs fid dest mimetype) d = Some (File n))
                 \<and> snd (download_file True removable remote fs fid dest mimetype) dest = fs dest"
    if ok: "fst (download_file True removable remote fs fid dest mimetype) = Inr True"
  proof -
    obtain r0 fs0 where a: "fetch_and_validate removable (remote fid (Some export_mime)) fs d = (r0, fs0)"
      by (cases "fetch_and_validate removable (remote fid (Some export_mime)) fs d")
    obtain r1 fs1 where g1: "guarded removable (r0, fs0) d = (r1, fs1)" by (cases "guarded removable (r0, fs0) d")
    obtain r fs' where g: "guarded removable (r1, fs1) dest = (r, fs')" by (cases "guarded removable (r1, fs1) dest")
    have df: "download_file True removable remote fs fid dest mimetype = (r, fs')"
      using tab d(1) a g1 g by (simp add: download_file_def export_file_def dict_contains_def)
    have "r = Inr True" using ok df by simp
    then have r1: "r1 = Inr True" "fs' = fs1" using guarded_cases [OF g] by auto
    then have r0: "r0 = Inr True" "fs1 = fs0" using guarded_cases [OF g1] by auto
    obtain n where n: "0 < n" "remote fid (Some export_mime) = Chunks n" "fs0 d = Some (File n)"
      using fetch_and_validate_cases [OF a] r0 by auto
    have "dest \<noteq> []" using False by (auto simp: path_name_def)
    then have len: "length (parent d) < length dest" using d(4) by (simp add: parent_def)
    have "fs0 dest = fs dest"
      using a n r0 d(3) mkdir_p_other [OF _ len]
      by (auto simp: fetch_and_validate_def fetch_to_def validate_nonempty_def unlink_def
            split: sum.splits if_splits prod.splits option.splits node.splits)
    then show ?thesis using df r1 r0 n by auto
  qed
  show ?thesis using False w d ok_case by blast
qed

theorem export_rewrites_extension_witness:
  "path_name budget_destination \<noteq> []
   \<and> \<not> endswith (lower (str_path budget_destination)) (lower ''.xlsx'')
   \<and> written_path budget_destination sheet_mime = [''D:'', ''dl'', ''Documents'', ''Budget 2024.xlsx'']
   \<and> snd (download_file True removal_succeeds healthy_remote no_files ''s1'' budget_destination sheet_mime)
         [''D:'', ''dl'', ''Documents'', ''Budget 2024.xlsx''] = Some (File 2048)
   \<and> (\<exists>d. written_path budget_destination sheet_mime = d \<and> endswith (str_path d) ''.xlsx''
            \<and> d \<noteq> budget_destination)"
proof -
  have h1: "dict_get GOOGLE_DOCS_EXPORT sheet_mime
             = Some (''application/vnd.openxmlformats-officedocument.spreadsheetml.sheet'', ''.xlsx'')"
    by code_simp
  have h2: "path_name budget_destination \<noteq> []" by code_simp
  have h3: "\<not> endswith (lower (str_path budget_destination)) (lower ''.xlsx'')" by code_simp
  have h4: "written_path budget_destination sheet_mime = [''D:'', ''dl'', ''Documents'', ''Budget 2024.xlsx'']"
    by code_simp
  have h5: "snd (download_file True removal_succeeds healthy_remote no_files ''s1'' budget_destination sheet_mime)
         [''D:'', ''dl'', ''Documents'', ''Budget 2024.xlsx''] = Some (File 2048)"
    by code_simp
  from export_rewrites_extension [OF h1 h3, of removal_succeeds healthy_remote no_files "''s1''"]
  show ?thesis using h2 h3 h4 h5 by blast
qed

subsection \<open>Skipping what is on disk\<close>

text \<open>
  C3. When the loop body reaches an item whose destination exists in the file system
  (after the destination directory has been created), no adapter is called for the item,
  \<^verbatim>\<open>_download_single_file\<close> reports success and skipped, the skipped counter grows by one
  while the downloaded and error counters keep their value, and the record is stored with
  status \<^verbatim>\<open>complete\<close>, the destination as its local path and the time of the step.
\<close>

theorem existing_destination_is_skipped:
  assumes dir: "fst (destination_dir (files (world s)) file_state source_type dl_path) = Inr dest_dir"
    and ex: "path_exists (snd (destination_dir (files (world s)) file_state source_type dl_path))
               (pjoin dest_dir (name file_state))"
  shows "transfer_calls (world (process_item drive_download photos_download dl_path now
                                  (file_state, source_type) s)) = transfer_calls (world s)
         \<and> fst (download_single_file drive_download photos_download file_state source_type
                   dl_path (world s)) = (True, True)
         \<and> skipped_count (process_item drive_download photos_download dl_path now
                            (file_state, source_type) s) = skipped_count s + 1
         \<and> downloaded_count (process_item drive_download photos_download dl_path now
                               (file_state, source_type) s) = downloaded_count s
         \<and> error_count (process_item drive_download photos_download dl_path now
                          (file_state, source_type) s) = error_count s
         \<and> dict_get
              (if source_type = ''drive''
               then drive_state (store (process_item drive_download photos_download dl_path now
                                          (file_state, source_type) s))
               else photos_state (store (process_item drive_download photos_download dl_path now
                                           (file_state, source_type) s)))
              (file_id file_state)
            = Some (file_state\<lparr>local_path := Some (str_path (pjoin dest_dir (name file_state))),
                                status := ''complete'', downloaded_at := Some now\<rparr>)"
proof -
  obtain fs1 where dd: "destination_dir (files (world s)) file_state source_type dl_path
                          = (Inr dest_dir, fs1)"
    using dir by (cases "destination_dir (files (world s)) file_state source_type dl_path") auto
  have ex1: "path_exists fs1 (pjoin dest_dir (name file_state))" using ex dd by simp
  have d: "download_single_file drive_download photos_download file_state source_type dl_path (world s)
           = ((True, True),
              file_state\<lparr>local_path := Some (str_path (pjoin dest_dir (name file_state)))\<rparr>,
              (world s)\<lparr>files := fs1\<rparr>)"
    using dd ex1 by (simp add: download_single_file_def Let_def)
  show ?thesis
  proof (cases "source_type = ''drive''")
    case True
    with d show ?thesis
      by (simp add: process_item_def Let_def update_drive_file_def save_drive_state_def
            dict_get_set_same)
  next
    case False
    with d show ?thesis
      by (simp add: process_item_def Let_def update_photos_file_def save_photos_state_def
            dict_get_set_same)
  qed
qed

theorem existing_destination_witness:
  "path_exists (snd (destination_dir (files (world clip_run_start)) pending_clip ''photos'' [''D:'', ''dl'']))
     (pjoin [''D:'', ''dl'', ''Videos'', ''Photos''] (name pending_clip))
   \<and> transfer_calls (world (process_item drive_adapter_ok photos_adapter_ok [''D:'', ''dl'']
                              ''2024-03-01T12:00:00'' (pending_clip, ''photos'') clip_run_start)) = []
   \<and> skipped_count (process_item drive_adapter_ok photos_adapter_ok [''D:'', ''dl'']
                       ''2024-03-01T12:00:00'' (pending_clip, ''photos'') clip_run_start) = 1
   \<and> downloaded_count (process_item drive_adapter_ok photos_adapter_ok [''D:'', ''dl'']
                       ''2024-03-01T12:00:00'' (pending_clip, ''photos'') clip_run_start) = 0"
proof -
  have h1: "fst (destination_dir (files (world clip_run_start)) pending_clip ''photos'' [''D:'', ''dl''])
              = Inr [''D:'', ''dl'', ''Videos'', ''Photos'']"
    by code_simp
  have h2: "path_exists (snd (destination_dir (files (world clip_run_start)) pending_clip ''photos'' [''D:'', ''dl'']))
     (pjoin [''D:'', ''dl'', ''Videos'', ''Photos''] (name pending_clip))"
    by code_simp
  have c: "transfer_calls (world clip_run_start) = []" "skipped_count clip_run_start = 0"
    "downloaded_count clip_run_start = 0"
    by (simp_all add: clip_run_start_def)
  from existing_destination_is_skipped [OF h1 h2, of drive_adapter_ok photos_adapter_ok
         "''2024-03-01T12:00:00''"]
  show ?thesis using h2 c by simp
qed

text \<open>The whole worker on that item: the counters handed to the final notification.\<close>

lemma clip_full_run:
  "(case download_worker ''D:/dl'' sample_other_attrs drive_adapter_ok photos_adapter_ok
           (\<lambda>i. Proceed) (\<lambda>i. ''2024-03-01T12:00:00'') (manager clip_run_start)
           (store clip_run_start) (world clip_run_start) of
      Some (Inr s) \<Rightarrow> skipped_count s = 1 \<and> downloaded_count s = 0 \<and> error_count s = 0
                       \<and> transfer_calls (world s) = [] \<and> \<not> is_downloading (manager s)
    | _ \<Rightarrow> False)"
  by code_simp

text \<open>The counters never decrease along the loop, so what a step adds is in the counts at
  the end of the run.\<close>

lemma process_item_counts:
  "skipped_count s \<le> skipped_count (process_item dd pd p now item s)
   \<and> downloaded_count s \<le> downloaded_count (process_item dd pd p now item s)
   \<and> error_count s \<le> error_count (process_item dd pd p now item s)"
  by (simp add: process_item_def Let_def)

lemma worker_loop_counts:
  "worker_loop dd pd p ctl clock i items s = Some s' \<Longrightarrow>
   skipped_count s \<le> skipped_count s' \<and> downloaded_count s \<le> downloaded_count s'
   \<and> error_count s \<le> error_count s'"
proof (induction items arbitrary: i s)
  case Nil then show ?case by simp
next
  case (Cons item items)
  show ?case
  proof (cases "ctl i")
    case Proceed
    with Cons.prems have "worker_loop dd pd p ctl clock (Suc i) items
        (process_item dd pd p (clock i) item s) = Some s'" by simp
    from Cons.IH [OF this] process_item_counts [of s dd pd p "clock i" item]
    show ?thesis by linarith
  next
    case StopSeen with Cons.prems show ?thesis by simp
  next
    case PausedForever with Cons.prems show ?thesis by simp
  qed
qed

subsection \<open>Missing credentials\<close>

text \<open>
  C7 as stated fails for \<^verbatim>\<open>start_download\<close>: without credentials it returns normally, with
  the manager marked as downloading and a worker thread started.
\<close>

theorem start_without_credentials_counterexample:
  "start_download False idle_manager
     = Inr (idle_manager\<lparr>is_downloading := True, threads_started := 1\<rparr>)
   \<and> start_download False idle_manager \<noteq> Inl RuntimeError"
  by code_simp

text \<open>
  C7, as the code has it. Without credentials \<^verbatim>\<open>scan_sources\<close> raises before it lists or
  stores anything. \<^verbatim>\<open>start_download\<close> does not look at the credentials: it returns
  normally, as it does with credentials, and leaves the manager downloading, with a worker
  started unless one was running.
\<close>

theorem scan_fails_fast_start_defers:
  "scan_sources False dd oa list_drive list_photos cm = Inl RuntimeError
   \<and> (\<exists>dm'. start_download False dm = Inr dm' \<and> is_downloading dm'
         \<and> threads_started dm'
            = (if is_downloading dm then threads_started dm else threads_started dm + 1))
   \<and> start_download False dm = start_download True dm"
proof (intro conjI)
  show "scan_sources False dd oa list_drive list_photos cm = Inl RuntimeError"
    by (simp add: scan_sources_def)
  show "\<exists>dm'. start_download False dm = Inr dm' \<and> is_downloading dm'
         \<and> threads_started dm'
            = (if is_downloading dm then threads_started dm else threads_started dm + 1)"
    by (simp add: start_download_def)
  show "start_download False dm = start_download True dm"
    by (simp add: start_download_def)
qed

subsection \<open>The photo library and the video toggle\<close>

lemma get_config_photos:
  "photos_state (snd (get_config dd oa cm)) = photos_state cm"
  "photos_state_file (snd (get_config dd oa cm)) = photos_state_file cm"
  by (simp_all add: get_config_def Let_def split: option.splits)

lemma merge_files_Nil: "merge_files st [] = st"
  by (simp add: merge_files_def)

text \<open>
  C10. The listing of the photo library is submitted exactly when both
  \<^verbatim>\<open>download_photos\<close> and \<^verbatim>\<open>download_videos\<close> are true. With \<^verbatim>\<open>download_videos\<close> false the
  scan does not depend on what that listing would return, and the records of the photo
  library in the store are the ones it held (loaded from the state file if need be).
\<close>

theorem photos_listing_needs_both_toggles:
  "(''photos'' \<in> set (submitted (scan_collect config list_drive list_photos)))
     = (truthy (download_photos config) \<and> truthy (download_videos config))
   \<and> (\<not> truthy (download_videos config) \<longrightarrow>
        fst (get_config dd oa cm) = config \<longrightarrow>
        (\<exists>stats cm'.
           scan_sources True dd oa list_drive list_photos cm = Inr (stats, cm')
           \<and> scan_sources True dd oa list_drive other_photos cm = Inr (stats, cm')
           \<and> photos_state cm' = photos_state (get_photos_state cm)))"
proof (intro conjI impI)
  show "(''photos'' \<in> set (submitted (scan_collect config list_drive list_photos)))
     = (truthy (download_photos config) \<and> truthy (download_videos config))"
    by (simp add: scan_collect_def Let_def)
next
  assume nv: "\<not> truthy (download_videos config)" and cfg: "fst (get_config dd oa cm) = config"
  obtain cm1 where g: "get_config dd oa cm = (config, cm1)"
    using cfg by (cases "get_config dd oa cm") auto
  have ps: "photos_state cm1 = photos_state cm" "photos_state_file cm1 = photos_state_file cm"
    using get_config_photos [of dd oa cm] g by simp_all
  have indep: "scan_collect config list_drive list_photos = scan_collect config list_drive other_photos"
    using nv by (simp add: scan_collect_def Let_def)
  have nofiles: "photos_files (scan_collect config list_drive list_photos) = []"
    using nv by (simp add: scan_collect_def Let_def)
  show "\<exists>stats cm'.
           scan_sources True dd oa list_drive list_photos cm = Inr (stats, cm')
           \<and> scan_sources True dd oa list_drive other_photos cm = Inr (stats, cm')
           \<and> photos_state cm' = photos_state (get_photos_state cm)"
    using g indep nofiles ps
    by (simp add: scan_sources_def Let_def merge_files_Nil save_drive_state_def
          save_photos_state_def get_photos_state_def get_drive_state_def)
qed

theorem photos_listing_witness:
  "\<not> truthy (download_videos ((AppConfig_default ''D:/dl'')\<lparr>download_videos := PBool False\<rparr>))
   \<and> (\<exists>stats cm'.
        scan_sources True ''D:/dl'' sample_other_attrs (\<lambda>v d. Inr [done_document])
          (Inr [pending_clip])
          (store_empty\<lparr>cm_config := Some ((AppConfig_default ''D:/dl'')\<lparr>download_videos := PBool False\<rparr>)\<rparr>)
          = Inr (stats, cm')
        \<and> photos_state cm' = [])"
  using photos_listing_needs_both_toggles
          [of "(AppConfig_default ''D:/dl'')\<lparr>download_videos := PBool False\<rparr>"
              "\<lambda>v d. Inr [done_document]" "Inr [pending_clip]" "''D:/dl''" sample_other_attrs
              "store_empty\<lparr>cm_config := Some ((AppConfig_default ''D:/dl'')\<lparr>download_videos := PBool False\<rparr>)\<rparr>"
              "Inr [pending_clip]"]
  by (simp add: get_config_def store_empty_def get_photos_state_def load_state_def)

end
